theory Spec2Isabelle
  imports Complex_Main
begin

section \<open>JavaScript numbers and errors\<close>

text \<open>
  The facade \<open>AliTVSTree\<close> of \<open>src/pixels/kdtree/index.js\<close> computes with JavaScript
  numbers. A number is modelled as a finite real, one of the two infinities, or NaN.
  Finite arithmetic is exact (no rounding, no overflow, one zero); the infinities and NaN
  behave as IEEE 754 prescribes, which is what decides the comparisons of the source:
  every relational operator is false as soon as one operand is NaN.
\<close>

datatype jsnum = NaN | NInf | Fin real | PInf

datatype error = TypeError

text \<open>The operator \<open><\<close> of the source.\<close>

fun jlt :: "jsnum \<Rightarrow> jsnum \<Rightarrow> bool" where
  "jlt NaN b = False"
| "jlt a NaN = False"
| "jlt (Fin a) (Fin b) = (a < b)"
| "jlt PInf b = False"
| "jlt a NInf = False"
| "jlt NInf b = True"
| "jlt a PInf = True"

text \<open>The operators \<open>>\<close>, \<open><=\<close> and \<open>>=\<close>.\<close>

definition jgt :: "jsnum \<Rightarrow> jsnum \<Rightarrow> bool" where
  "jgt a b = jlt b a"

definition jle :: "jsnum \<Rightarrow> jsnum \<Rightarrow> bool" where
  "jle a b = (a \<noteq> NaN \<and> b \<noteq> NaN \<and> \<not> jlt b a)"

definition jge :: "jsnum \<Rightarrow> jsnum \<Rightarrow> bool" where
  "jge a b = jle b a"

text \<open>The arithmetic operators \<open>+\<close>, \<open>-\<close>, \<open>*\<close> and \<open>/\<close>.\<close>

fun jneg :: "jsnum \<Rightarrow> jsnum" where
  "jneg NaN = NaN"
| "jneg NInf = PInf"
| "jneg PInf = NInf"
| "jneg (Fin a) = Fin (- a)"

fun jadd :: "jsnum \<Rightarrow> jsnum \<Rightarrow> jsnum" where
  "jadd NaN b = NaN"
| "jadd a NaN = NaN"
| "jadd (Fin a) (Fin b) = Fin (a + b)"
| "jadd PInf NInf = NaN"
| "jadd NInf PInf = NaN"
| "jadd PInf b = PInf"
| "jadd NInf b = NInf"
| "jadd a PInf = PInf"
| "jadd a NInf = NInf"

definition jsub :: "jsnum \<Rightarrow> jsnum \<Rightarrow> jsnum" where
  "jsub a b = jadd a (jneg b)"

text \<open>The sign of an infinite product or quotient: the infinity of the sign of \<open>s\<close>.\<close>

definition inf_of_sign :: "real \<Rightarrow> jsnum" where
  "inf_of_sign s = (if s > 0 then PInf else if s < 0 then NInf else NaN)"

fun jmul :: "jsnum \<Rightarrow> jsnum \<Rightarrow> jsnum" where
  "jmul NaN b = NaN"
| "jmul a NaN = NaN"
| "jmul (Fin a) (Fin b) = Fin (a * b)"
| "jmul (Fin a) PInf = inf_of_sign a"
| "jmul (Fin a) NInf = inf_of_sign (- a)"
| "jmul PInf (Fin b) = inf_of_sign b"
| "jmul NInf (Fin b) = inf_of_sign (- b)"
| "jmul PInf PInf = PInf"
| "jmul NInf NInf = PInf"
| "jmul PInf NInf = NInf"
| "jmul NInf PInf = NInf"

text \<open>
  Division: a finite non-zero number divided by zero is an infinity, zero by zero is NaN,
  an infinity by an infinity is NaN.
\<close>

fun jdiv :: "jsnum \<Rightarrow> jsnum \<Rightarrow> jsnum" where
  "jdiv NaN b = NaN"
| "jdiv a NaN = NaN"
| "jdiv (Fin a) (Fin b) = (if b = 0 then inf_of_sign a else Fin (a / b))"
| "jdiv (Fin a) PInf = Fin 0"
| "jdiv (Fin a) NInf = Fin 0"
| "jdiv PInf (Fin b) = (if b < 0 then NInf else PInf)"
| "jdiv NInf (Fin b) = (if b < 0 then PInf else NInf)"
| "jdiv PInf b = NaN"
| "jdiv NInf b = NaN"

text \<open>\<open>Math.atan\<close>, \<open>Math.ceil\<close>, \<open>Math.round\<close> (half up) and \<open>Math.max\<close>.\<close>

fun Math_atan :: "jsnum \<Rightarrow> jsnum" where
  "Math_atan NaN = NaN"
| "Math_atan NInf = Fin (- (pi / 2))"
| "Math_atan PInf = Fin (pi / 2)"
| "Math_atan (Fin a) = Fin (arctan a)"

fun Math_ceil :: "jsnum \<Rightarrow> jsnum" where
  "Math_ceil (Fin a) = Fin (of_int \<lceil>a\<rceil>)"
| "Math_ceil a = a"

fun Math_round :: "jsnum \<Rightarrow> jsnum" where
  "Math_round (Fin a) = Fin (of_int \<lfloor>a + 1 / 2\<rfloor>)"
| "Math_round a = a"

definition Math_max :: "jsnum \<Rightarrow> jsnum \<Rightarrow> jsnum" where
  "Math_max a b = (if a = NaN \<or> b = NaN then NaN else if jlt a b then b else a)"

text \<open>
  Reading a property of \<open>undefined\<close> raises a TypeError. \<open>elemAt xs i\<close> is the read
  \<open>xs[i].f\<close> of a field of the element: the element when \<open>i\<close> is an index of the array,
  the TypeError otherwise.
\<close>

definition elemAt :: "'a list \<Rightarrow> int \<Rightarrow> error + 'a" where
  "elemAt xs i = (if 0 \<le> i \<and> i < int (length xs) then Inr (xs ! nat i) else Inl TypeError)"

text \<open>Sequencing: an exception of the first computation is the exception of the whole.\<close>

definition bindE :: "error + 'a \<Rightarrow> ('a \<Rightarrow> error + 'b) \<Rightarrow> error + 'b" where
  "bindE m f = (case m of Inl e \<Rightarrow> Inl e | Inr v \<Rightarrow> f v)"

text \<open>\<open>Array.prototype.filter\<close> with a callback that may throw.\<close>

fun filterE :: "('a \<Rightarrow> error + bool) \<Rightarrow> 'a list \<Rightarrow> error + 'a list" where
  "filterE f [] = Inr []"
| "filterE f (a # as) =
     bindE (f a) (\<lambda>keep. bindE (filterE f as) (\<lambda>rest. Inr (if keep then a # rest else rest)))"

section \<open>Data model\<close>

text \<open>
  A point of a line is a record of the raw data. The refinement callbacks of
  \<open>getPixelData\<close> and the accumulator of \<open>render\<close> read its fields \<open>x\<close> and \<open>y\<close>
  (here \<open>px\<close> and \<open>py\<close>, finite pixel coordinates); the constructor, \<open>getCrossPoints\<close>
  and the attribute filter read fields by name (\<open>point[field]\<close>, \<open>None\<close> for
  \<open>undefined\<close>).
\<close>

record 'v point =
  px :: real
  py :: real
  attrs :: "(string \<times> 'v) list"

type_synonym 'v line = "'v point list"

definition field :: "'v point \<Rightarrow> string \<Rightarrow> 'v option" where
  "field p name = map_of (attrs p) name"

section \<open>The refinement of a brush candidate\<close>

text \<open>
  The first binary search of the callback (\<open>while (l <= r)\<close> with
  \<open>line[mid].x >= minX\<close>): \<open>lp\<close> becomes the last \<open>mid\<close> that satisfied the test.
  \<open>(l + r) >> 1\<close> is the floor of the half for the array indices at hand.
\<close>

function lowerSearch :: "'v line \<Rightarrow> jsnum \<Rightarrow> int \<Rightarrow> int \<Rightarrow> int \<Rightarrow> error + int" where
  "lowerSearch line minX l r lp =
     (if l \<le> r then
        bindE (elemAt line ((l + r) div 2)) (\<lambda>p.
          if jge (Fin (px p)) minX then lowerSearch line minX l ((l + r) div 2 - 1) ((l + r) div 2)
          else lowerSearch line minX ((l + r) div 2 + 1) r lp)
      else Inr lp)"
  by pat_completeness auto
termination
  by (relation "measure (\<lambda>(line, minX, l, r, lp). nat (r - l + 1))") auto

text \<open>The second binary search (\<open>line[mid].x <= maxX\<close>).\<close>

function upperSearch :: "'v line \<Rightarrow> jsnum \<Rightarrow> int \<Rightarrow> int \<Rightarrow> int \<Rightarrow> error + int" where
  "upperSearch line maxX l r rp =
     (if l \<le> r then
        bindE (elemAt line ((l + r) div 2)) (\<lambda>p.
          if jle (Fin (px p)) maxX then upperSearch line maxX ((l + r) div 2 + 1) r ((l + r) div 2)
          else upperSearch line maxX l ((l + r) div 2 - 1) rp)
      else Inr rp)"
  by pat_completeness auto
termination
  by (relation "measure (\<lambda>(line, maxX, l, r, rp). nat (r - l + 1))") auto

text \<open>
  The interior scan \<open>for (let i = lp; i <= rp; i++)\<close>: \<open>Inr False\<close> is the
  \<open>return false\<close> of the callback, \<open>Inr True\<close> the end of the loop.
\<close>

function scanY :: "'v line \<Rightarrow> jsnum \<Rightarrow> jsnum \<Rightarrow> int \<Rightarrow> int \<Rightarrow> error + bool" where
  "scanY line minY maxY i rp =
     (if i \<le> rp then
        bindE (elemAt line i) (\<lambda>p.
          if jlt (Fin (py p)) minY \<or> jgt (Fin (py p)) maxY then Inr False
          else scanY line minY maxY (i + 1) rp)
      else Inr True)"
  by pat_completeness auto
termination
  by (relation "measure (\<lambda>(line, minY, maxY, i, rp). nat (rp - i + 1))") auto

text \<open>
  The callback that \<open>getPixelData\<close> gives to \<open>filter\<close> in the cases \<open>brush-box\<close>,
  \<open>brush-x\<close> and \<open>brush-y\<close>: the three copies in the source differ only in the four
  constants \<open>minX\<close>, \<open>minY\<close>, \<open>maxX\<close>, \<open>maxY\<close>. \<open>mix\<close> is a helper that the file uses and
  does not define; it is a parameter, and the callback reads the \<open>y\<close> of its result (the
  second component). Both boundary checks pass \<open>minX\<close> to \<open>mix\<close>, as the source does.
\<close>

definition brushRefine ::
  "('v point \<Rightarrow> 'v point \<Rightarrow> jsnum \<Rightarrow> jsnum \<times> jsnum) \<Rightarrow> jsnum \<Rightarrow> jsnum \<Rightarrow> jsnum \<Rightarrow> jsnum \<Rightarrow>
   'v line \<Rightarrow> error + bool" where
  "brushRefine mix minX minY maxX maxY line =
     bindE (lowerSearch line minX 0 (int (length line) - 1) 0) (\<lambda>lp.
     bindE (upperSearch line maxX 0 (int (length line) - 1) (int (length line) - 1)) (\<lambda>rp.
     bindE (scanY line minY maxY lp rp) (\<lambda>inside.
       if \<not> inside then Inr False
       else
         bindE (if lp \<noteq> 0 then
                  bindE (elemAt line (lp - 1)) (\<lambda>a. bindE (elemAt line lp) (\<lambda>b.
                    Inr (\<not> (jlt (snd (mix a b minX)) minY \<or> jgt (snd (mix a b minX)) maxY))))
                else Inr True) (\<lambda>leftOk.
         if \<not> leftOk then Inr False
         else if rp < int (length line) - 1 then
           bindE (elemAt line rp) (\<lambda>a. bindE (elemAt line (rp + 1)) (\<lambda>b.
             Inr (\<not> (jlt (snd (mix a b minX)) minY \<or> jgt (snd (mix a b minX)) maxY))))
         else Inr True))))"

section \<open>The refinement of an angular candidate\<close>

text \<open>The quotient \<open>(a.y - b.y) / (a.x - b.x)\<close> of the source.\<close>

definition slopeOf :: "'v point \<Rightarrow> 'v point \<Rightarrow> jsnum" where
  "slopeOf a b = jdiv (jsub (Fin (py a)) (Fin (py b))) (jsub (Fin (px a)) (Fin (px b)))"

text \<open>The test \<open>ang < angMin || ang > angMax\<close>.\<close>

definition outsideAng :: "jsnum \<Rightarrow> jsnum \<Rightarrow> jsnum \<Rightarrow> bool" where
  "outsideAng angMin angMax ang = (jlt ang angMin \<or> jgt ang angMax)"

text \<open>The interior scan \<open>for (let i = lp; i < rp; i++)\<close> over adjacent pairs.\<close>

function scanSlope :: "'v line \<Rightarrow> jsnum \<Rightarrow> jsnum \<Rightarrow> int \<Rightarrow> int \<Rightarrow> error + bool" where
  "scanSlope line angMin angMax i rp =
     (if i < rp then
        bindE (elemAt line (i + 1)) (\<lambda>q. bindE (elemAt line i) (\<lambda>p.
          if outsideAng angMin angMax (Math_atan (slopeOf q p)) then Inr False
          else scanSlope line angMin angMax (i + 1) rp))
      else Inr True)"
  by pat_completeness auto
termination
  by (relation "measure (\<lambda>(line, angMin, angMax, i, rp). nat (rp - i))") auto

text \<open>
  The callback of the case \<open>angular\<close>. It reads \<open>line[0].x\<close> and \<open>line[r].x\<close> before the
  searches; the second read is not reached when the first test holds.
\<close>

definition angularRefine :: "jsnum \<Rightarrow> jsnum \<Rightarrow> jsnum \<Rightarrow> jsnum \<Rightarrow> 'v line \<Rightarrow> error + bool" where
  "angularRefine minX angMin maxX angMax line =
     bindE (elemAt line 0) (\<lambda>first.
     if jgt (Fin (px first)) maxX then Inr False
     else
     bindE (elemAt line (int (length line) - 1)) (\<lambda>last.
     if jlt (Fin (px last)) minX then Inr False
     else
     bindE (lowerSearch line minX 0 (int (length line) - 1) 0) (\<lambda>lp.
     bindE (upperSearch line maxX 0 (int (length line) - 1) (int (length line) - 1)) (\<lambda>rp.
     bindE (scanSlope line angMin angMax lp rp) (\<lambda>inside.
       if \<not> inside then Inr False
       else
         bindE (if lp \<noteq> 0 then
                  bindE (elemAt line (lp - 1)) (\<lambda>a. bindE (elemAt line lp) (\<lambda>b.
                    Inr (\<not> outsideAng angMin angMax (Math_atan (slopeOf a b)))))
                else Inr True) (\<lambda>leftOk.
         if \<not> leftOk then Inr False
         else if rp < int (length line) - 1 then
           bindE (elemAt line (rp + 1)) (\<lambda>a. bindE (elemAt line rp) (\<lambda>b.
             Inr (\<not> outsideAng angMin angMax (Math_atan (slopeOf a b)))))
         else Inr True))))))"




section \<open>The facade\<close>

text \<open>
  The scale of the charting library: \<open>scale\<close> maps a data value to a pixel coordinate,
  \<open>range\<close> (here \<open>pixelRange\<close>) is its pixel range, a pair of whole pixels.
\<close>

record 'v scale =
  scale :: "'v option \<Rightarrow> real"
  pixelRange :: "int \<times> int"

text \<open>
  The slope-pixel accumulator: \<open>cache[col][row]\<close> is an object from line identity to a
  number, read through \<open>Object.entries\<close>.
\<close>

type_synonym cache = "(nat \<times> jsnum) list list list"

text \<open>
  The code that \<open>index.js\<close> imports or calls and that is not part of it: the class
  \<open>KDTree\<close> (its constructor and its queries \<open>knn\<close>, \<open>rnn\<close>, \<open>brush\<close>, \<open>angular\<close>, each
  returning line identities; for \<open>knn\<close> the \<open>id\<close> of each hit), and the helpers
  \<open>getClosestPointOnLines\<close>, \<open>brensenhamArr\<close> (which returns the accumulator it has
  stamped) and \<open>mix\<close>. They are parameters of the model, pure functions of their
  arguments.
\<close>

record ('v, 'k) collaborators =
  KDTree :: "(real \<times> real) list list \<Rightarrow> 'k"
  knn :: "'k \<Rightarrow> real \<times> real \<Rightarrow> nat \<Rightarrow> nat list"
  rnn :: "'k \<Rightarrow> real \<times> real \<Rightarrow> real \<Rightarrow> nat list"
  brush :: "'k \<Rightarrow> jsnum \<times> jsnum \<Rightarrow> jsnum \<times> jsnum \<Rightarrow> nat list"
  angular :: "'k \<Rightarrow> real \<times> real \<Rightarrow> real \<times> real \<Rightarrow> nat list"
  getClosestPointOnLines :: "real \<times> real \<Rightarrow> (real \<times> real) list \<Rightarrow> real \<times> real"
  brensenhamArr :: "'v point \<times> 'v point \<Rightarrow> cache \<Rightarrow> nat \<Rightarrow> jsnum \<Rightarrow> cache"
  mix :: "'v point \<Rightarrow> 'v point \<Rightarrow> jsnum \<Rightarrow> jsnum \<times> jsnum"

text \<open>The fields of an instance; \<open>None\<close> is the unset \<open>_slopePixelCache\<close>.\<close>

record ('v, 'k) AliTVSTree =
  kdtree :: 'k
  raw :: "'v line list"
  xScale :: "'v scale"
  yScale :: "'v scale"
  xField :: string
  yField :: string
  slopePixelCache :: "cache option"

text \<open>The five filter options of \<open>getPixelData\<close>, fields in the order of the typedefs.\<close>

datatype 'v options =
    BrushBox real real real real
  | BrushX real real
  | BrushY real real
  | Angular real real real real
  | Attr string "'v option list"

definition constructor ::
  "('v, 'k) collaborators \<Rightarrow> 'v line list \<Rightarrow> string \<Rightarrow> string \<Rightarrow> 'v scale \<Rightarrow> 'v scale \<Rightarrow>
   ('v, 'k) AliTVSTree" where
  "constructor C data xF yF xS yS =
     \<lparr> kdtree = KDTree C (map (\<lambda>line. map (\<lambda>point.
           (scale xS (field point xF), scale yS (field point yF))) line) data),
       raw = data, xScale = xS, yScale = yS, xField = xF, yField = yF,
       slopePixelCache = None \<rparr>"

text \<open>
  Every method takes the instance and returns its result, or the exception it raised,
  with the instance after the call. \<open>getCrossPoints\<close> returns \<open>position\<close>, \<open>data\<close> and
  \<open>dataToPoint\<close>.
\<close>

definition getCrossPoints ::
  "('v, 'k) collaborators \<Rightarrow> ('v, 'k) AliTVSTree \<Rightarrow> real \<Rightarrow> real \<Rightarrow>
   (error + (real \<times> real) \<times> 'v line \<times> (real \<times> real) list) \<times> ('v, 'k) AliTVSTree" where
  "getCrossPoints C this x y =
     (bindE (elemAt (knn C (kdtree this) (x, y) 1) 0) (\<lambda>index.
      bindE (elemAt (raw this) (int index)) (\<lambda>data.
        let dataToPoint = map (\<lambda>point. (scale (xScale this) (field point (xField this)),
                                        scale (yScale this) (field point (yField this)))) data;
            closestPoint = getClosestPointOnLines C (x, y) dataToPoint
        in Inr (closestPoint, data, dataToPoint))),
      this)"

text \<open>\<open>xs.slice(0, n)\<close>: a negative \<open>n\<close> counts from the end.\<close>

definition slice0 :: "'a list \<Rightarrow> int \<Rightarrow> 'a list" where
  "slice0 xs n = (if 0 \<le> n then take (nat n) xs else take (nat (int (length xs) + n)) xs)"

text \<open>\<open>xs[i]\<close> as a value: \<open>None\<close> is \<open>undefined\<close>.\<close>

definition lookup :: "'a list \<Rightarrow> nat \<Rightarrow> 'a option" where
  "lookup xs i = (if i < length xs then Some (xs ! i) else None)"

definition getHoverLines ::
  "('v, 'k) collaborators \<Rightarrow> ('v, 'k) AliTVSTree \<Rightarrow> real \<Rightarrow> real \<Rightarrow> real \<Rightarrow> int \<Rightarrow>
   (error + (real \<times> real) \<times> 'v line option list) \<times> ('v, 'k) AliTVSTree" where
  "getHoverLines C this x y r topN =
     (let indices = slice0 (rnn C (kdtree this) (x, y) r) topN
      in Inr ((x, y), map (\<lambda>index. lookup (raw this) index) indices),
      this)"

text \<open>
  The callback of a \<open>filter\<close> over candidate identities: \<open>line = this._raw[id]\<close>, then the
  refinement, whose first statement reads \<open>line.length\<close>.
\<close>

definition refineIds ::
  "'v line list \<Rightarrow> ('v line \<Rightarrow> error + bool) \<Rightarrow> nat list \<Rightarrow> error + 'v line list" where
  "refineIds rawData refine candidates =
     bindE (filterE (\<lambda>lineId. bindE (elemAt rawData (int lineId)) refine) candidates) (\<lambda>indices.
       Inr (map (\<lambda>index. rawData ! index) indices))"

text \<open>The optional post-filter \<open>if (filter) resultData = resultData.filter(...)\<close>.\<close>

definition postFilter :: "('v line \<Rightarrow> bool) option \<Rightarrow> 'v line list \<Rightarrow> 'v line list" where
  "postFilter flt resultData = (case flt of None \<Rightarrow> resultData | Some f \<Rightarrow> filter f resultData)"

definition getPixelData ::
  "('v, 'k) collaborators \<Rightarrow> ('v, 'k) AliTVSTree \<Rightarrow> 'v options \<Rightarrow> ('v line \<Rightarrow> bool) option \<Rightarrow>
   (error + 'v line list) \<times> ('v, 'k) AliTVSTree" where
  "getPixelData C this opts flt =
     (bindE
        (case opts of
           BrushBox lowX lowY highX highY \<Rightarrow>
             refineIds (raw this)
               (brushRefine (mix C) (Fin lowX) (Fin lowY) (Fin highX) (Fin highY))
               (brush C (kdtree this) (Fin lowX, Fin lowY) (Fin highX, Fin highY))
         | BrushX lowX highX \<Rightarrow>
             refineIds (raw this)
               (brushRefine (mix C) (Fin lowX) NInf (Fin highX) PInf)
               (brush C (kdtree this) (Fin lowX, NInf) (Fin highX, PInf))
         | BrushY lowY highY \<Rightarrow>
             refineIds (raw this)
               (brushRefine (mix C) NInf (Fin lowY) PInf (Fin highY))
               (brush C (kdtree this) (NInf, Fin lowY) (PInf, Fin highY))
         | Angular lowX lowSlope highX highSlope \<Rightarrow>
             refineIds (raw this)
               (angularRefine (Fin lowX) (Fin lowSlope) (Fin highX) (Fin highSlope))
               (angular C (kdtree this) (lowX, lowSlope) (highX, highSlope))
         | Attr name vals \<Rightarrow>
             Inr (filter (\<lambda>line. find (\<lambda>point. field point name \<notin> set vals) line = None)
                    (raw this)))
        (\<lambda>resultData. Inr (postFilter flt resultData)),
      this)"

definition getSelectedLines ::
  "('v, 'k) AliTVSTree \<Rightarrow> ('v line \<Rightarrow> bool) option \<Rightarrow>
   (error + 'v line list) \<times> ('v, 'k) AliTVSTree" where
  "getSelectedLines this flt = (Inr (postFilter flt (raw this)), this)"

section \<open>The density rasterizer\<close>

text \<open>
  The build of the accumulator: a \<open>width\<close> by \<open>height\<close> grid of empty objects, then one
  call of \<open>brensenhamArr\<close> for every consecutive pair of points of every line.
\<close>

definition stampLine :: "('v, 'k) collaborators \<Rightarrow> 'v line \<Rightarrow> nat \<Rightarrow> cache \<Rightarrow> cache" where
  "stampLine C line lineId cache0 =
     fold (\<lambda>i cache. brensenhamArr C (line ! i, line ! (i + 1)) cache lineId
                       (slopeOf (line ! (i + 1)) (line ! i)))
       [0..<length line - 1] cache0"

definition buildCache :: "('v, 'k) collaborators \<Rightarrow> 'v line list \<Rightarrow> nat \<Rightarrow> nat \<Rightarrow> cache" where
  "buildCache C rawData width height =
     fold (\<lambda>lineId cache. stampLine C (rawData ! lineId) lineId cache) [0..<length rawData]
       (replicate width (replicate height []))"

text \<open>
  The weight of one pixel: the \<open>reduce\<close> over the entries of its cell, where
  \<open>fastMapping[v[0]]\<close> holds for the identities of \<open>ids\<close>.
\<close>

definition pixelWeight :: "bool \<Rightarrow> nat list \<Rightarrow> (nat \<times> jsnum) list \<Rightarrow> jsnum" where
  "pixelWeight normalise ids pixelCache =
     (if normalise then
        fold (\<lambda>v p. jadd p (if fst v \<in> set ids then snd v else Fin 0)) pixelCache (Fin 0)
      else
        fold (\<lambda>v p. jadd p (if fst v \<in> set ids then Fin 1 else Fin 0)) pixelCache (Fin 0))"

text \<open>A \<open>map\<close> whose callback may throw.\<close>

fun mapE :: "('a \<Rightarrow> error + 'b) \<Rightarrow> 'a list \<Rightarrow> error + 'b list" where
  "mapE f [] = Inr []"
| "mapE f (a # as) = bindE (f a) (\<lambda>b. bindE (mapE f as) (\<lambda>bs. Inr (b # bs)))"

text \<open>
  \<open>tempBuffer\<close>: entry \<open>i\<close> is the weight of the cell \<open>cache[floor(i / height)][i % height]\<close>;
  a column or a cell that the accumulator does not have raises a TypeError.
\<close>

definition tempBuffer :: "cache \<Rightarrow> nat \<Rightarrow> nat \<Rightarrow> bool \<Rightarrow> nat list \<Rightarrow> error + jsnum list" where
  "tempBuffer cache width height normalise ids =
     mapE (\<lambda>i. bindE (elemAt cache (int (i div height))) (\<lambda>column.
                bindE (elemAt column (int (i mod height))) (\<lambda>pixelCache.
                  Inr (pixelWeight normalise ids pixelCache))))
       [0..<width * height]"

text \<open>
  \<open>Math.ceil(tempBuffer.reduce((p, v) => Math.max(p, v)))\<close>: a \<open>reduce\<close> with no initial
  value raises a TypeError on an empty array.
\<close>

definition maxWeightOf :: "jsnum list \<Rightarrow> error + jsnum" where
  "maxWeightOf buf =
     (case buf of [] \<Rightarrow> Inl TypeError
      | w # ws \<Rightarrow> Inr (Math_ceil (fold (\<lambda>v p. Math_max p v) ws w)))"

text \<open>A colour is what \<open>colormap\<close> returns: red, green and blue.\<close>

type_synonym color = "nat \<times> nat \<times> nat"

text \<open>A store into a \<open>Uint8ClampedArray\<close> clamps the value to 255.\<close>

definition clamp8 :: "nat \<Rightarrow> nat" where
  "clamp8 c = min c 255"

text \<open>The quantized ratio of a weight.\<close>

definition ratioOf :: "jsnum \<Rightarrow> jsnum \<Rightarrow> jsnum" where
  "ratioOf weight maxWeight = Math_round (jmul (jdiv weight maxWeight) (Fin 10000))"

text \<open>
  The body of the two nested loops for the pixel \<open>(i, j)\<close>: the state is \<open>colorCache\<close>,
  keyed by the ratio, and \<open>tempImageBuffer\<close>. \<open>set(color, offset)\<close> writes the three
  channels; the fourth byte is the alpha.
\<close>

definition paintPixel ::
  "(jsnum \<Rightarrow> color) \<Rightarrow> jsnum list \<Rightarrow> jsnum \<Rightarrow> nat \<Rightarrow> nat \<Rightarrow> nat \<Rightarrow> nat \<Rightarrow>
   (jsnum \<rightharpoonup> color) \<times> nat list \<Rightarrow> (jsnum \<rightharpoonup> color) \<times> nat list" where
  "paintPixel colormap buf maxWeight width height i j s =
     (let colorCache = fst s; image = snd s;
          ratio = ratioOf (buf ! (i * height + j)) maxWeight;
          colorCache' = (if colorCache ratio = None
                         then colorCache(ratio \<mapsto> colormap (jdiv ratio (Fin 10000)))
                         else colorCache);
          color = the (colorCache' ratio);
          offset = (j * width + i) * 4
      in (colorCache',
          image[offset := clamp8 (fst color),
                offset + 1 := clamp8 (fst (snd color)),
                offset + 2 := clamp8 (snd (snd color)),
                offset + 3 := (if jle ratio (Fin 0) then 0 else 255)]))"

definition paintImage ::
  "(jsnum \<Rightarrow> color) \<Rightarrow> jsnum list \<Rightarrow> jsnum \<Rightarrow> nat \<Rightarrow> nat \<Rightarrow> nat list" where
  "paintImage colormap buf maxWeight width height =
     snd (fold (\<lambda>i s. fold (\<lambda>j s'. paintPixel colormap buf maxWeight width height i j s')
                        [0..<height] s)
            [0..<width] (Map.empty, replicate (width * height * 4) 0))"

text \<open>\<open>Math.abs(range.reduce((p, v) => p - v))\<close> for the two ends of a pixel range.\<close>

definition extent :: "'v scale \<Rightarrow> nat" where
  "extent s = nat \<bar>fst (pixelRange s) - snd (pixelRange s)\<bar>"

text \<open>
  \<open>render\<close>: the result is \<open>maxWeight\<close> with the image given to \<open>putImageData\<close>. The
  accumulator is assigned before the weights are computed, so the instance returned has
  it also when a later statement raises.
\<close>

definition render ::
  "('v, 'k) collaborators \<Rightarrow> ('v, 'k) AliTVSTree \<Rightarrow> (jsnum \<Rightarrow> color) \<Rightarrow> bool \<Rightarrow> nat list option \<Rightarrow>
   (error + jsnum \<times> nat list) \<times> ('v, 'k) AliTVSTree" where
  "render C this colormap normalise indices =
     (let ids = (case indices of None \<Rightarrow> [0..<length (raw this)] | Some given \<Rightarrow> given);
          width = extent (xScale this);
          height = extent (yScale this);
          cache = (case slopePixelCache this of
                     None \<Rightarrow> buildCache C (raw this) width height
                   | Some cached \<Rightarrow> cached)
      in (bindE (tempBuffer cache width height normalise ids) (\<lambda>buf.
          bindE (maxWeightOf buf) (\<lambda>maxWeight.
            Inr (maxWeight, paintImage colormap buf maxWeight width height))),
          this\<lparr>slopePixelCache := Some cache\<rparr>))"

section \<open>The helper \<open>mix\<close>\<close>

text \<open>
  Modelled from the spec: \<open>mix\<close> is called by \<open>index.js\<close> and defined nowhere in the
  sources at hand. The spec describes the boundary crossing as the "linear interpolation
  between the point just outside \<open>lp\<close>/\<open>rp\<close> and the nearest in-range point":
  \<open>mixLinear a b t\<close> is the point of abscissa \<open>t\<close> on the straight line through \<open>a\<close>
  and \<open>b\<close>.
\<close>

definition mixLinear :: "'v point \<Rightarrow> 'v point \<Rightarrow> jsnum \<Rightarrow> jsnum \<times> jsnum" where
  "mixLinear a b t =
     (t, jadd (Fin (py a))
           (jmul (jsub (Fin (py b)) (Fin (py a)))
              (jdiv (jsub t (Fin (px a))) (jsub (Fin (px b)) (Fin (px a))))))"

section \<open>Notions of the statements\<close>

text \<open>The four bytes of the pixel in column \<open>i\<close> and row \<open>j\<close> of an image buffer.\<close>

definition pixelBytes :: "nat list \<Rightarrow> nat \<Rightarrow> nat \<Rightarrow> nat \<Rightarrow> nat \<times> nat \<times> nat \<times> nat" where
  "pixelBytes buffer width i j =
     (buffer ! ((j * width + i) * 4), buffer ! ((j * width + i) * 4 + 1),
      buffer ! ((j * width + i) * 4 + 2), buffer ! ((j * width + i) * 4 + 3))"

text \<open>
  What the loop body writes for the pixel \<open>(i, j)\<close>: the clamped channels of
  \<open>colormap(ratio / 10000)\<close> and the alpha of the test \<open>ratio <= 0\<close>.
\<close>

definition pixelColour ::
  "(jsnum \<Rightarrow> color) \<Rightarrow> jsnum list \<Rightarrow> jsnum \<Rightarrow> nat \<Rightarrow> nat \<Rightarrow> nat \<Rightarrow> nat \<times> nat \<times> nat \<times> nat" where
  "pixelColour colormap buf maxWeight height i j =
     (clamp8 (fst (colormap (jdiv (ratioOf (buf ! (i * height + j)) maxWeight) (Fin 10000)))),
      clamp8 (fst (snd (colormap (jdiv (ratioOf (buf ! (i * height + j)) maxWeight) (Fin 10000))))),
      clamp8 (snd (snd (colormap (jdiv (ratioOf (buf ! (i * height + j)) maxWeight) (Fin 10000))))),
      if jle (ratioOf (buf ! (i * height + j)) maxWeight) (Fin 0) then 0 else 255)"

text \<open>
  The alpha in the spec's words ("set alpha to 0 if weight \<open>\<le>\<close> 0 else fully opaque"), to
  be compared with the alpha that \<open>render\<close> writes.
\<close>

definition alphaByWeight :: "jsnum \<Rightarrow> nat" where
  "alphaByWeight weight = (if jle weight (Fin 0) then 0 else 255)"

text \<open>The invariant of \<open>colorCache\<close>: an entry is the colour of its key.\<close>

definition memoOk :: "(jsnum \<Rightarrow> color) \<Rightarrow> (jsnum \<rightharpoonup> color) \<Rightarrow> bool" where
  "memoOk colormap colorCache =
     (\<forall>k c. colorCache k = Some c \<longrightarrow> c = colormap (jdiv k (Fin 10000)))"

text \<open>
  The subset, the accumulator and the weight buffer of a call of \<open>render\<close>, named for
  the statements about it.
\<close>

definition subsetOf :: "('v, 'k) AliTVSTree \<Rightarrow> nat list option \<Rightarrow> nat list" where
  "subsetOf this indices =
     (case indices of None \<Rightarrow> [0..<length (raw this)] | Some given \<Rightarrow> given)"

definition accumulator :: "('v, 'k) collaborators \<Rightarrow> ('v, 'k) AliTVSTree \<Rightarrow> cache" where
  "accumulator C this =
     (case slopePixelCache this of
        None \<Rightarrow> buildCache C (raw this) (extent (xScale this)) (extent (yScale this))
      | Some cached \<Rightarrow> cached)"

definition weights ::
  "('v, 'k) collaborators \<Rightarrow> ('v, 'k) AliTVSTree \<Rightarrow> bool \<Rightarrow> nat list option \<Rightarrow> error + jsnum list" where
  "weights C this normalise indices =
     tempBuffer (accumulator C this) (extent (xScale this)) (extent (yScale this)) normalise
       (subsetOf this indices)"

text \<open>The pixel dimensions of an accumulator are those of the surface of the instance.\<close>

definition fitsSurface :: "('v, 'k) AliTVSTree \<Rightarrow> cache \<Rightarrow> bool" where
  "fitsSurface this cache =
     (map length cache = replicate (extent (xScale this)) (extent (yScale this)))"

text \<open>\<open>brensenhamArr\<close> writes into cells: it keeps the number of columns and of rows.\<close>

definition keepsShape :: "('v, 'k) collaborators \<Rightarrow> bool" where
  "keepsShape C =
     (\<forall>seg cache0 lineId slope.
        map length (brensenhamArr C seg cache0 lineId slope) = map length cache0)"

text \<open>
  The frame of a query: the raw data, the index and the accumulator of the instance after
  the call are those before it.
\<close>

definition frame :: "('v, 'k) AliTVSTree \<Rightarrow> ('v, 'k) AliTVSTree \<Rightarrow> bool" where
  "frame before after =
     (raw after = raw before \<and> kdtree after = kdtree before
      \<and> slopePixelCache after = slopePixelCache before)"

section \<open>A small instance\<close>

text \<open>
  Concrete collaborators on which the theorems below are instantiated: an index that is
  the number of lines and returns every identity as a candidate (the index may be
  over-inclusive), a stamp that adds an entry to the cell of a segment's first end point,
  and the linear \<open>mix\<close>.
\<close>

definition pt :: "real \<Rightarrow> real \<Rightarrow> nat point" where
  "pt a b = \<lparr> px = a, py = b, attrs = [(''x'', nat \<lfloor>a\<rfloor>), (''y'', nat \<lfloor>b\<rfloor>)] \<rparr>"

definition stampStart :: "nat point \<times> nat point \<Rightarrow> cache \<Rightarrow> nat \<Rightarrow> jsnum \<Rightarrow> cache" where
  "stampStart seg cache0 lineId slope =
     (let col = nat \<lfloor>px (fst seg)\<rfloor>; row = nat \<lfloor>py (fst seg)\<rfloor>
      in if col < length cache0 \<and> row < length (cache0 ! col)
         then cache0[col := (cache0 ! col)[row := cache0 ! col ! row @ [(lineId, slope)]]]
         else cache0)"

definition allIndex :: "(nat, nat) collaborators" where
  "allIndex =
     \<lparr> KDTree = length,
       knn = (\<lambda>n q k. take k [0..<n]),
       rnn = (\<lambda>n q r. [0..<n]),
       brush = (\<lambda>n lo hi. [0..<n]),
       angular = (\<lambda>n lo hi. [0..<n]),
       getClosestPointOnLines = (\<lambda>q pts. case pts of [] \<Rightarrow> q | p # ps \<Rightarrow> p),
       brensenhamArr = stampStart,
       mix = mixLinear \<rparr>"

definition pixelScale :: "int \<Rightarrow> nat scale" where
  "pixelScale n = \<lparr> scale = (\<lambda>v. case v of None \<Rightarrow> 0 | Some k \<Rightarrow> real k), pixelRange = (0, n) \<rparr>"


definition smallTree :: "nat line list \<Rightarrow> (nat, nat) AliTVSTree" where
  "smallTree data = constructor allIndex data ''x'' ''y'' (pixelScale 2) (pixelScale 2)"

definition faintLine :: "nat line" where
  "faintLine = [pt 0 0, pt 100000 1]"

definition unitLine :: "nat line" where
  "unitLine = [pt 1 1, pt 2 2]"

definition greyMap :: "jsnum \<Rightarrow> color" where
  "greyMap a =
     (case a of Fin q \<Rightarrow> (nat \<lfloor>q * 255\<rfloor>, nat \<lfloor>q * 255\<rfloor>, nat \<lfloor>q * 255\<rfloor>) | _ \<Rightarrow> (0, 0, 0))"

definition twoLines :: "(nat, nat) AliTVSTree" where
  "twoLines = smallTree [faintLine, unitLine]"

text \<open>The instance \<open>twoLines\<close> after a first render pass and a resize of the surface.\<close>

definition resized :: "(nat, nat) AliTVSTree" where
  "resized = (snd (render allIndex twoLines greyMap False None))
               \<lparr>xScale := pixelScale 1, yScale := pixelScale 1\<rparr>"


definition flatLine :: "nat line" where
  "flatLine = [pt 0 5, pt 10 5, pt 20 5]"

section \<open>Basic facts\<close>

lemma bindE_Inr_iff: "bindE m f = Inr v \<longleftrightarrow> (\<exists>a. m = Inr a \<and> f a = Inr v)"
  by (cases m) (simp_all add: bindE_def)

lemma bindE_Inr [simp]: "bindE (Inr a) f = f a"
  by (simp add: bindE_def)

lemma bindE_Inl [simp]: "bindE (Inl e) f = Inl e"
  by (simp add: bindE_def)

lemma elemAt_Inr_iff: "elemAt xs i = Inr a \<longleftrightarrow> 0 \<le> i \<and> i < int (length xs) \<and> a = xs ! nat i"
  by (auto simp: elemAt_def)

lemma elemAt_in_range: "0 \<le> i \<Longrightarrow> i < int (length xs) \<Longrightarrow> elemAt xs i = Inr (xs ! nat i)"
  by (simp add: elemAt_def)



lemma jge_Fin_Fin [simp]: "jge (Fin a) (Fin b) \<longleftrightarrow> b \<le> a"
  by (auto simp: jge_def jle_def)

lemma jle_Fin_Fin [simp]: "jle (Fin a) (Fin b) \<longleftrightarrow> a \<le> b"
  by (auto simp: jle_def)

lemma jgt_Fin_Fin [simp]: "jgt (Fin a) (Fin b) \<longleftrightarrow> b < a"
  by (auto simp: jgt_def)

declare lowerSearch.simps [simp del] upperSearch.simps [simp del] scanY.simps [simp del]
  scanSlope.simps [simp del]













lemmas eval_defs =
  brushRefine_def angularRefine_def lowerSearch.simps upperSearch.simps scanY.simps
  scanSlope.simps elemAt_def mixLinear_def jsub_def jgt_def slopeOf_def outsideAng_def
  getPixelData_def refineIds_def postFilter_def constructor_def allIndex_def pt_def
  smallTree_def pixelScale_def inf_of_sign_def







section \<open>The brush-box filter\<close>







section \<open>The angular filter\<close>







section \<open>Degenerate lines and the empty data set\<close>

text \<open>
  C8. Degenerate polyline robustness: a candidate line with no point should never make a
  filtered query raise. The source does not do this: the angular callback reads \<open>line[0].x\<close> before anything else, so
  on a line with no point it raises a TypeError, and the whole \<open>getPixelData\<close> with it;
  the brush callbacks accept such a line, and the angular callback accepts a line of one
  point inside the window.
\<close>

theorem C8_angular_empty_line_raises:
  "angularRefine minX angMin maxX angMax [] = Inl TypeError
   \<and> fst (getPixelData allIndex (smallTree [[], flatLine]) (Angular 5 (- (1 / 10)) 15 (1 / 10)) None)
       = Inl TypeError
   \<and> brushRefine mx minX minY maxX maxY [] = Inr True
   \<and> angularRefine (Fin 5) angMin (Fin 15) angMax [pt 10 5] = Inr True"
  by (simp add: eval_defs)

text \<open>
  C4. Empty data set is not an error: every query of an instance built from an empty
  collection should return an empty result. The source does not do this:
  \<open>getCrossPoints\<close> raises a TypeError there, whatever
  the index answers: either \<open>knn(...)[0]\<close> is \<open>undefined\<close>, or \<open>this._raw[index]\<close> is.
\<close>

theorem C4_getCrossPoints_empty_raises:
  "fst (getCrossPoints C (constructor C [] xF yF xS yS) x y) = Inl TypeError"
  by (cases "knn C (KDTree C []) (x, y) 1")
     (simp_all add: getCrossPoints_def constructor_def elemAt_def bindE_def)


section \<open>The brush-x filter\<close>

lemma jlt_NInf [simp]: "jlt a NInf = False"
  by (cases a) simp_all

lemma jgt_PInf [simp]: "jgt a PInf = False"
  by (cases a) (simp_all add: jgt_def)







section \<open>Queries do not change the instance\<close>

text \<open>
  C9. Query frame property: none of \<open>getCrossPoints\<close>, \<open>getHoverLines\<close>, \<open>getPixelData\<close> and
  \<open>getSelectedLines\<close> changes the raw data, the index or the accumulator of the instance,
  also when the call raises.
\<close>

theorem C9_queries_frame:
  "frame this (snd (getCrossPoints C this x y))
   \<and> frame this (snd (getHoverLines C this x y r topN))
   \<and> frame this (snd (getPixelData C this opts flt))
   \<and> frame this (snd (getSelectedLines this flt))"
  by (simp add: frame_def getCrossPoints_def getHoverLines_def getPixelData_def
      getSelectedLines_def)

text \<open>\<open>render\<close> is the method that does change the instance: it sets the accumulator.\<close>

lemma render_not_frame:
  "\<not> frame (smallTree []) (snd (render allIndex (smallTree []) cm False None))"
  by (simp add: frame_def render_def smallTree_def constructor_def Let_def)


section \<open>The image of a render pass\<close>

lemma fold_nested_product:
  "fold (\<lambda>i s. fold (\<lambda>j. f i j) ys s) xs s0 = fold (\<lambda>(i, j). f i j) (List.product xs ys) s0"
proof (induction xs arbitrary: s0)
  case Nil
  then show ?case by simp
next
  case (Cons x xs)
  have "fold (\<lambda>(i, j). f i j) (map (Pair x) ys) s0 = fold (\<lambda>j. f x j) ys s0"
    by (simp add: fold_map comp_def)
  with Cons show ?case by simp
qed

lemma pixel_index_bound: "i < w \<Longrightarrow> j < h \<Longrightarrow> j * w + i < w * (h::nat)"
proof -
  assume a: "i < w" "j < h"
  then have "j * w + i < Suc j * w" by simp
  also have "\<dots> \<le> h * w" using a(2) by (intro mult_le_mono1) simp
  finally show ?thesis by (simp add: mult.commute)
qed

lemma pixel_index_inj:
  assumes "i < w" "i' < w" "j * w + i = j' * w + (i'::nat)"
  shows "i = i' \<and> j = j'"
proof -
  have "(j * w + i) mod w = i" "(j' * w + i') mod w = i'" using assms(1,2) by simp_all
  with assms(3) have i: "i = i'" by metis
  have "(j * w + i) div w = j" "(j' * w + i') div w = j'" using assms(1,2) by simp_all
  with assms(3) have "j = j'" by metis
  with i show ?thesis by simp
qed

lemma paintPixel_effect:
  assumes m: "memoOk colormap cc" and len: "length img = w * h * 4" and i: "i < w" and j: "j < h"
  shows "memoOk colormap (fst (paintPixel colormap buf mw w h i j (cc, img)))"
    and "length (snd (paintPixel colormap buf mw w h i j (cc, img))) = w * h * 4"
    and "pixelBytes (snd (paintPixel colormap buf mw w h i j (cc, img))) w i j
           = pixelColour colormap buf mw h i j"
    and "j' * w + i' \<noteq> j * w + i \<Longrightarrow>
         pixelBytes (snd (paintPixel colormap buf mw w h i j (cc, img))) w i' j'
           = pixelBytes img w i' j'"
proof -
  let ?ratio = "ratioOf (buf ! (i * h + j)) mw"
  let ?cc = "if cc ?ratio = None then cc(?ratio \<mapsto> colormap (jdiv ?ratio (Fin 10000))) else cc"
  have cc': "memoOk colormap ?cc" using m by (auto simp: memoOk_def)
  have col: "the (?cc ?ratio) = colormap (jdiv ?ratio (Fin 10000))"
    using m by (auto simp: memoOk_def)
  have bound: "(j * w + i) * 4 + 3 < length img"
    using pixel_index_bound [OF i j] len by simp
  show "memoOk colormap (fst (paintPixel colormap buf mw w h i j (cc, img)))"
    using cc' by (simp add: paintPixel_def Let_def)
  show "length (snd (paintPixel colormap buf mw w h i j (cc, img))) = w * h * 4"
    using len by (simp add: paintPixel_def Let_def)
  show "pixelBytes (snd (paintPixel colormap buf mw w h i j (cc, img))) w i j
           = pixelColour colormap buf mw h i j"
    using bound col by (simp add: paintPixel_def Let_def pixelBytes_def pixelColour_def)
  show "pixelBytes (snd (paintPixel colormap buf mw w h i j (cc, img))) w i' j'
           = pixelBytes img w i' j'" if "j' * w + i' \<noteq> j * w + i"
    using that by (simp add: paintPixel_def Let_def pixelBytes_def)
qed

lemma paint_fold:
  assumes "memoOk colormap cc" and "length img = w * h * 4"
    and "\<forall>p \<in> set ps. fst p < w \<and> snd p < h"
  shows "memoOk colormap (fst (fold (\<lambda>(i, j). paintPixel colormap buf mw w h i j) ps (cc, img)))
     \<and> length (snd (fold (\<lambda>(i, j). paintPixel colormap buf mw w h i j) ps (cc, img))) = w * h * 4
     \<and> (\<forall>i j. i < w \<and> j < h \<longrightarrow>
          pixelBytes (snd (fold (\<lambda>(i, j). paintPixel colormap buf mw w h i j) ps (cc, img))) w i j
            = (if (i, j) \<in> set ps then pixelColour colormap buf mw h i j
               else pixelBytes img w i j))"
  using assms(3)
proof (induction ps rule: rev_induct)
  case Nil
  then show ?case using assms(1,2) by simp
next
  case (snoc p ps)
  obtain a b where p: "p = (a, b)" by (cases p)
  let ?s = "fold (\<lambda>(i, j). paintPixel colormap buf mw w h i j) ps (cc, img)"
  from snoc have ih: "memoOk colormap (fst ?s)" "length (snd ?s) = w * h * 4"
    "\<And>i j. i < w \<Longrightarrow> j < h \<Longrightarrow> pixelBytes (snd ?s) w i j
        = (if (i, j) \<in> set ps then pixelColour colormap buf mw h i j else pixelBytes img w i j)"
    by simp_all
  from snoc.prems p have ab: "a < w" "b < h" by simp_all
  have step: "fold (\<lambda>(i, j). paintPixel colormap buf mw w h i j) (ps @ [p]) (cc, img)
      = paintPixel colormap buf mw w h a b (fst ?s, snd ?s)"
    by (simp add: p)
  note eff = paintPixel_effect [OF ih(1,2) ab, where buf = buf and mw = mw]
  show ?case
  proof (intro conjI allI impI)
    show "memoOk colormap (fst (fold (\<lambda>(i, j). paintPixel colormap buf mw w h i j) (ps @ [p]) (cc, img)))"
      unfolding step by (rule eff(1))
    show "length (snd (fold (\<lambda>(i, j). paintPixel colormap buf mw w h i j) (ps @ [p]) (cc, img))) = w * h * 4"
      unfolding step by (rule eff(2))
    fix i j assume ij: "i < w \<and> j < h"
    show "pixelBytes (snd (fold (\<lambda>(i, j). paintPixel colormap buf mw w h i j) (ps @ [p]) (cc, img))) w i j
        = (if (i, j) \<in> set (ps @ [p]) then pixelColour colormap buf mw h i j else pixelBytes img w i j)"
    proof (cases "(i, j) = (a, b)")
      case True
      then show ?thesis unfolding step using eff(3) p by simp
    next
      case False
      then have "j * w + i \<noteq> b * w + a"
        using pixel_index_inj [of i w a j b] ij ab by auto
      from eff(4) [OF this]
      have e4: "pixelBytes (snd (paintPixel colormap buf mw w h a b (fst ?s, snd ?s))) w i j
          = pixelBytes (snd ?s) w i j" .
      have mem: "(i, j) \<in> set (ps @ [p]) \<longleftrightarrow> (i, j) \<in> set ps"
        using False p by auto
      show ?thesis unfolding step e4 mem using ih(3) [of i j] ij by blast
    qed
  qed
qed

lemma paintImage_pixel:
  assumes "i < w" and "j < h"
  shows "pixelBytes (paintImage colormap buf mw w h) w i j = pixelColour colormap buf mw h i j"
proof -
  have m: "memoOk colormap Map.empty" by (simp add: memoOk_def)
  have l: "length (replicate (w * h * 4) (0::nat)) = w * h * 4" by simp
  have r: "\<forall>p \<in> set (List.product [0..<w] [0..<h]). fst p < w \<and> snd p < h" by auto
  have "(i, j) \<in> set (List.product [0..<w] [0..<h])" using assms by simp
  with paint_fold [OF m l r, where buf = buf and mw = mw] assms show ?thesis
    by (simp add: paintImage_def fold_nested_product)
qed


lemma render_fst:
  "fst (render C this colormap normalise indices) =
     bindE (weights C this normalise indices) (\<lambda>buf.
     bindE (maxWeightOf buf) (\<lambda>maxWeight.
       Inr (maxWeight,
            paintImage colormap buf maxWeight (extent (xScale this)) (extent (yScale this)))))"
  by (simp add: render_def weights_def accumulator_def subsetOf_def Let_def)

lemma render_snd:
  "snd (render C this colormap normalise indices) = this\<lparr>slopePixelCache := Some (accumulator C this)\<rparr>"
  by (simp add: render_def accumulator_def Let_def)

lemma paintImage_length: "length (paintImage colormap buf mw w h) = w * h * 4"
proof -
  have m: "memoOk colormap Map.empty" by (simp add: memoOk_def)
  have l: "length (replicate (w * h * 4) (0::nat)) = w * h * 4" by simp
  have r: "\<forall>p \<in> set (List.product [0..<w] [0..<h]). fst p < w \<and> snd p < h" by auto
  from paint_fold [OF m l r, where buf = buf and mw = mw] show ?thesis
    by (simp add: paintImage_def fold_nested_product)
qed

lemma fold_max_Fin:
  "\<forall>v \<in> set ws. \<exists>r. v = Fin r \<Longrightarrow>
   \<exists>m. fold (\<lambda>v p. Math_max p v) ws (Fin a) = Fin m \<and> Fin m \<in> set (Fin a # ws)
       \<and> (\<forall>r. Fin r \<in> set (Fin a # ws) \<longrightarrow> r \<le> m)"
proof (induction ws arbitrary: a)
  case Nil
  then show ?case by simp
next
  case (Cons w ws)
  then obtain b where w: "w = Fin b" by auto
  have step: "Math_max (Fin a) (Fin b) = Fin (max a b)"
    by (simp add: Math_max_def max_def)
  from Cons.IH [of "max a b"] Cons.prems
  obtain m where m: "fold (\<lambda>v p. Math_max p v) ws (Fin (max a b)) = Fin m"
    "Fin m \<in> set (Fin (max a b) # ws)" "\<forall>r. Fin r \<in> set (Fin (max a b) # ws) \<longrightarrow> r \<le> m"
    by auto
  from m(3) have "max a b \<le> m" by simp
  with m w step show ?case by (auto simp: max_def split: if_splits)
qed

lemma maxWeightOf_finite:
  assumes "maxWeightOf buf = Inr maxWeight" and "\<forall>v \<in> set buf. \<exists>r. v = Fin r"
  shows "\<exists>m. Fin m \<in> set buf \<and> (\<forall>r. Fin r \<in> set buf \<longrightarrow> r \<le> m) \<and> maxWeight = Fin (of_int \<lceil>m\<rceil>)"
proof (cases buf)
  case Nil
  with assms(1) show ?thesis by (simp add: maxWeightOf_def)
next
  case (Cons w ws)
  with assms(2) obtain a where a: "w = Fin a" by auto
  from fold_max_Fin [of ws a] assms(2) Cons
  obtain m where m: "fold (\<lambda>v p. Math_max p v) ws (Fin a) = Fin m" "Fin m \<in> set (Fin a # ws)"
    "\<forall>r. Fin r \<in> set (Fin a # ws) \<longrightarrow> r \<le> m" by auto
  with assms(1) Cons a show ?thesis by (auto simp: maxWeightOf_def)
qed

lemma ratioOf_nonpositive:
  assumes "0 < m"
  shows "jle (ratioOf (Fin w) (Fin m)) (Fin 0) \<longleftrightarrow> w * 20000 < m"
proof -
  have "ratioOf (Fin w) (Fin m) = Fin (of_int \<lfloor>w / m * 10000 + 1 / 2\<rfloor>)"
    using assms by (simp add: ratioOf_def)
  moreover have "\<lfloor>w / m * 10000 + 1 / 2\<rfloor> \<le> 0 \<longleftrightarrow> w / m * 10000 + 1 / 2 < 1"
    by (simp add: floor_le_iff)
  moreover have "w / m * 10000 + 1 / 2 < 1 \<longleftrightarrow> w * 20000 < m"
    using assms by (simp add: field_simps)
  ultimately show ?thesis by simp
qed


text \<open>The render passes of the instance \<open>twoLines\<close>, stage by stage.\<close>

lemma upt_small: "[0..<2] = [0, 1]" "[0..<4] = [0, 1, 2, 3]" "[0..<1] = [0]"
  by (simp_all add: upt_rec)

lemma twoLines_fields:
  "raw twoLines = [faintLine, unitLine]" "slopePixelCache twoLines = None"
  "extent (xScale twoLines) = 2" "extent (yScale twoLines) = 2"
  by (simp_all add: twoLines_def smallTree_def constructor_def pixelScale_def extent_def)

lemma twoLines_cache:
  "buildCache allIndex [faintLine, unitLine] 2 2 = [[[(0, Fin (1 / 100000))], []], [[], [(1, Fin 1)]]]"
  by (simp add: buildCache_def stampLine_def allIndex_def stampStart_def pt_def slopeOf_def
      jsub_def faintLine_def unitLine_def upt_small numeral_2_eq_2 Let_def)

lemma twoLines_accumulator:
  "accumulator allIndex twoLines = [[[(0, Fin (1 / 100000))], []], [[], [(1, Fin 1)]]]"
  by (simp add: accumulator_def twoLines_fields twoLines_cache)

lemma twoLines_weights_normalised:
  "weights allIndex twoLines True None = Inr [Fin (1 / 100000), Fin 0, Fin 0, Fin 1]"
  by (simp add: weights_def twoLines_accumulator twoLines_fields subsetOf_def tempBuffer_def
      elemAt_def pixelWeight_def upt_small)

lemma twoLines_weights_none:
  "weights allIndex twoLines False (Some []) = Inr [Fin 0, Fin 0, Fin 0, Fin 0]"
  by (simp add: weights_def twoLines_accumulator twoLines_fields subsetOf_def tempBuffer_def
      elemAt_def pixelWeight_def upt_small)

lemma paint_normalised:
  "paintImage greyMap [Fin (1 / 100000), Fin 0, Fin 0, Fin 1] (Fin 1) 2 2
     = [0, 0, 0, 0, 0, 0, 0, 0, 0, 0, 0, 0, 255, 255, 255, 255]"
  by code_simp

lemma paint_none:
  "paintImage greyMap [Fin 0, Fin 0, Fin 0, Fin 0] (Fin 0) 2 2
     = [0, 0, 0, 255, 0, 0, 0, 255, 0, 0, 0, 255, 0, 0, 0, 255]"
  by code_simp

lemma twoLines_render_normalised:
  "fst (render allIndex twoLines greyMap True None)
     = Inr (Fin 1, [0, 0, 0, 0, 0, 0, 0, 0, 0, 0, 0, 0, 255, 255, 255, 255])"
  by (simp add: render_fst twoLines_weights_normalised maxWeightOf_def Math_max_def
      twoLines_fields paint_normalised)

lemma twoLines_render_none:
  "fst (render allIndex twoLines greyMap False (Some []))
     = Inr (Fin 0, [0, 0, 0, 255, 0, 0, 0, 255, 0, 0, 0, 255, 0, 0, 0, 255])"
  by (simp add: render_fst twoLines_weights_none maxWeightOf_def Math_max_def
      twoLines_fields paint_none)


section \<open>The colours of a render pass\<close>

text \<open>
  C6. Rasterizer colormap postcondition, as the code has it: \<open>render\<close> returns the ceiling
  of the maximum of the weight buffer (for a buffer of finite weights); the image has four
  bytes for each pixel; the pixel \<open>(i, j)\<close> gets the clamped red, green and blue of
  \<open>colormap(ratio / 10000)\<close> for \<open>ratio = round(weight / maxWeight * 10000)\<close>; and its
  alpha follows the quantized ratio, not the weight: it is 0 when the ratio is at most 0
  and 255 otherwise, which for a positive \<open>maxWeight\<close> means 0 exactly when
  \<open>weight < maxWeight / 20000\<close>. The statement covers the ratios that are numbers.
\<close>

theorem C6_render_colormap:
  assumes "fst (render C this colormap normalise indices) = Inr (maxWeight, img)"
    and "weights C this normalise indices = Inr buf"
    and "i < extent (xScale this)" and "j < extent (yScale this)"
  shows "((\<forall>v \<in> set buf. \<exists>r. v = Fin r) \<longrightarrow>
            (\<exists>m. Fin m \<in> set buf \<and> (\<forall>r. Fin r \<in> set buf \<longrightarrow> r \<le> m)
                 \<and> maxWeight = Fin (of_int \<lceil>m\<rceil>)))
     \<and> length img = extent (xScale this) * extent (yScale this) * 4
     \<and> img ! ((j * extent (xScale this) + i) * 4) =
         clamp8 (fst (colormap (jdiv (ratioOf (buf ! (i * extent (yScale this) + j)) maxWeight) (Fin 10000))))
     \<and> img ! ((j * extent (xScale this) + i) * 4 + 1) =
         clamp8 (fst (snd (colormap (jdiv (ratioOf (buf ! (i * extent (yScale this) + j)) maxWeight) (Fin 10000)))))
     \<and> img ! ((j * extent (xScale this) + i) * 4 + 2) =
         clamp8 (snd (snd (colormap (jdiv (ratioOf (buf ! (i * extent (yScale this) + j)) maxWeight) (Fin 10000)))))
     \<and> (\<forall>q. ratioOf (buf ! (i * extent (yScale this) + j)) maxWeight = Fin q \<longrightarrow>
            img ! ((j * extent (xScale this) + i) * 4 + 3) = (if q \<le> 0 then 0 else 255))
     \<and> (\<forall>w m. buf ! (i * extent (yScale this) + j) = Fin w \<and> maxWeight = Fin m \<and> 0 < m \<longrightarrow>
            img ! ((j * extent (xScale this) + i) * 4 + 3) = (if w * 20000 < m then 0 else 255))"
proof -
  let ?W = "extent (xScale this)" and ?H = "extent (yScale this)"
  from assms(1,2) have mw: "maxWeightOf buf = Inr maxWeight"
    and im: "img = paintImage colormap buf maxWeight ?W ?H"
    by (auto simp: render_fst bindE_Inr_iff)
  have px: "pixelBytes img ?W i j = pixelColour colormap buf maxWeight ?H i j"
    unfolding im by (rule paintImage_pixel [OF assms(3,4)])
  have alpha: "img ! ((j * ?W + i) * 4 + 3) =
      (if jle (ratioOf (buf ! (i * ?H + j)) maxWeight) (Fin 0) then 0 else 255)"
    using px by (simp add: pixelBytes_def pixelColour_def)
  have a1: "\<forall>q. ratioOf (buf ! (i * ?H + j)) maxWeight = Fin q \<longrightarrow>
            img ! ((j * ?W + i) * 4 + 3) = (if q \<le> 0 then 0 else 255)"
    using alpha by simp
  have a2: "\<forall>w m. buf ! (i * ?H + j) = Fin w \<and> maxWeight = Fin m \<and> 0 < m \<longrightarrow>
            img ! ((j * ?W + i) * 4 + 3) = (if w * 20000 < m then 0 else 255)"
    using alpha ratioOf_nonpositive by simp
  show ?thesis
    using maxWeightOf_finite [OF mw] px a1 a2
    by (simp add: pixelBytes_def pixelColour_def im paintImage_length)
qed

theorem C6_render_colormap_witness:
  "fst (render allIndex twoLines greyMap True None)
     = Inr (Fin 1, [0, 0, 0, 0, 0, 0, 0, 0, 0, 0, 0, 0, 255, 255, 255, 255])
   \<and> weights allIndex twoLines True None = Inr [Fin (1 / 100000), Fin 0, Fin 0, Fin 1]
   \<and> (1::nat) < extent (xScale twoLines) \<and> (1::nat) < extent (yScale twoLines)
   \<and> ratioOf (Fin 1) (Fin 1) = Fin 10000
   \<and> [0, 0, 0, 0, 0, 0, 0, 0, 0, 0, 0, 0, 255, 255, 255, 255] ! ((1 * 2 + 1) * 4 + 3) = (255::nat)
   \<and> [0, 0, 0, 0, 0, 0, 0, 0, 0, 0, 0, 0, 255, 255, 255, 255] ! ((1 * 2 + 1) * 4)
       = clamp8 (fst (greyMap (Fin 1)))"
  using C6_render_colormap [OF twoLines_render_normalised twoLines_weights_normalised,
      of 1 1]
  by (simp add: twoLines_fields ratioOf_def twoLines_render_normalised twoLines_weights_normalised)

text \<open>
  The spec ties the alpha to the sign of the weight. Two render passes of
  \<open>twoLines\<close> on its surface of 2 by 2 pixels show the difference. With
  \<open>normalize\<close> set, the pixel \<open>(0, 0)\<close> has the weight \<open>1 / 100000\<close>, above 0, and
  \<open>maxWeight\<close> is 1: the ratio rounds to 0 and the alpha (byte 3) is 0. With the empty
  subset every weight is 0 and \<open>maxWeight\<close> is 0: the ratio is \<open>0 / 0\<close>, not a number, the
  test \<open>ratio <= 0\<close> fails and every alpha is 255.
\<close>

theorem C6_alpha_follows_ratio_counterexample:
  "weights allIndex twoLines True None = Inr [Fin (1 / 100000), Fin 0, Fin 0, Fin 1]
   \<and> fst (render allIndex twoLines greyMap True None)
       = Inr (Fin 1, [0, 0, 0, 0, 0, 0, 0, 0, 0, 0, 0, 0, 255, 255, 255, 255])
   \<and> [0, 0, 0, 0, 0, 0, 0, 0, 0, 0, 0, 0, 255, 255, 255, 255] ! ((0 * 2 + 0) * 4 + 3)
       \<noteq> alphaByWeight ([Fin (1 / 100000), Fin 0, Fin 0, Fin 1] ! (0 * 2 + 0))
   \<and> weights allIndex twoLines False (Some []) = Inr [Fin 0, Fin 0, Fin 0, Fin 0]
   \<and> fst (render allIndex twoLines greyMap False (Some []))
       = Inr (Fin 0, [0, 0, 0, 255, 0, 0, 0, 255, 0, 0, 0, 255, 0, 0, 0, 255])
   \<and> [0, 0, 0, 255, 0, 0, 0, 255, 0, 0, 0, 255, 0, 0, 0, 255] ! ((0 * 2 + 0) * 4 + 3)
       \<noteq> alphaByWeight ([Fin 0, Fin 0, Fin 0, Fin 0] ! (0 * 2 + 0))"
  by (simp add: twoLines_weights_normalised twoLines_render_normalised twoLines_weights_none
      twoLines_render_none alphaByWeight_def)

section \<open>The accumulator cache\<close>

lemma stampLine_shape:
  "keepsShape C \<Longrightarrow> map length (stampLine C line lineId cache0) = map length cache0"
proof -
  assume k: "keepsShape C"
  have "map length (fold (\<lambda>i cache. brensenhamArr C (line ! i, line ! (i + 1)) cache lineId
          (slopeOf (line ! (i + 1)) (line ! i))) is cache0) = map length cache0" for "is"
    using k by (induction "is" arbitrary: cache0) (simp_all add: keepsShape_def)
  then show ?thesis by (simp add: stampLine_def)
qed

lemma buildCache_shape:
  assumes "keepsShape C"
  shows "map length (buildCache C rawData width height) = replicate width height"
proof -
  have "map length (fold (\<lambda>lineId cache. stampLine C (rawData ! lineId) lineId cache) ids cache0)
      = map length cache0" for ids cache0
    using assms by (induction ids arbitrary: cache0) (simp_all add: stampLine_shape)
  then show ?thesis by (simp add: buildCache_def)
qed

text \<open>
  C5. Accumulator cache, as the code has it: \<open>render\<close> builds the accumulator only when the
  instance has none, then with the pixel dimensions of the surface at that call (given
  that \<open>brensenhamArr\<close> keeps the shape of the grid); an instance that has an accumulator
  keeps it through every later \<open>render\<close>, also when the pixel ranges of the scales were
  changed in between: nothing invalidates it. \<open>render\<close> leaves the raw data and the index
  as they are.
\<close>

theorem C5_accumulator_built_once:
  assumes "keepsShape C"
  shows "(slopePixelCache this = None \<longrightarrow>
            (\<exists>built. slopePixelCache (snd (render C this colormap normalise indices)) = Some built
                   \<and> fitsSurface this built))
     \<and> (\<forall>cached. slopePixelCache this = Some cached \<longrightarrow>
            slopePixelCache (snd (render C this colormap normalise indices)) = Some cached)
     \<and> slopePixelCache (snd (render C
            ((snd (render C this colormap normalise indices))\<lparr>xScale := xScale', yScale := yScale'\<rparr>)
            colormap' normalise' indices'))
         = slopePixelCache (snd (render C this colormap normalise indices))
     \<and> raw (snd (render C this colormap normalise indices)) = raw this
     \<and> kdtree (snd (render C this colormap normalise indices)) = kdtree this"
  using buildCache_shape [OF assms]
  by (simp add: render_snd accumulator_def fitsSurface_def)

lemma stampStart_shape: "map length (stampStart seg cache0 lineId slope) = map length cache0"
  by (simp add: stampStart_def Let_def map_update list_update_same_conv)

lemma keepsShape_allIndex: "keepsShape allIndex"
  by (simp add: keepsShape_def allIndex_def stampStart_shape)



lemma resized_fields:
  "slopePixelCache resized = Some [[[(0, Fin (1 / 100000))], []], [[], [(1, Fin 1)]]]"
  "extent (xScale resized) = 1" "extent (yScale resized) = 1"
  "raw resized = [faintLine, unitLine]"
  by (simp_all add: resized_def render_snd twoLines_accumulator pixelScale_def extent_def
      twoLines_fields)

lemma resized_accumulator:
  "accumulator allIndex resized = [[[(0, Fin (1 / 100000))], []], [[], [(1, Fin 1)]]]"
  by (simp add: accumulator_def resized_fields)

lemma resized_weights: "weights allIndex resized False None = Inr [Fin 1]"
  by (simp add: weights_def resized_accumulator resized_fields subsetOf_def tempBuffer_def
      elemAt_def pixelWeight_def upt_small)

lemma paint_resized:
  "paintImage greyMap [Fin 1] (Fin 1) (Suc 0) (Suc 0) = [255, 255, 255, 255]"
  by code_simp

lemma resized_render:
  "fst (render allIndex resized greyMap False None) = Inr (Fin 1, [255, 255, 255, 255])"
  by (simp add: render_fst resized_weights maxWeightOf_def resized_fields paint_resized)

theorem C5_accumulator_built_once_witness:
  "keepsShape allIndex \<and> slopePixelCache twoLines = None
   \<and> slopePixelCache (snd (render allIndex twoLines greyMap False None))
       = Some [[[(0, Fin (1 / 100000))], []], [[], [(1, Fin 1)]]]
   \<and> fitsSurface twoLines [[[(0, Fin (1 / 100000))], []], [[], [(1, Fin 1)]]]
   \<and> slopePixelCache (snd (render allIndex resized greyMap False None))
       = Some [[[(0, Fin (1 / 100000))], []], [[], [(1, Fin 1)]]]"
  using C5_accumulator_built_once [OF keepsShape_allIndex, of twoLines greyMap False None
      "pixelScale 1" "pixelScale 1" greyMap False None]
    C5_accumulator_built_once [OF keepsShape_allIndex, of resized greyMap False None
      "pixelScale 1" "pixelScale 1" greyMap False None]
  by (simp add: keepsShape_allIndex twoLines_fields resized_fields render_snd
      twoLines_accumulator resized_accumulator fitsSurface_def numeral_2_eq_2)

text \<open>
  The spec has the accumulator rebuilt after a resize. \<open>resized\<close> is
  \<open>twoLines\<close> after a first pass on 2 by 2 pixels, with both pixel ranges then set to one
  pixel: the next pass returns normally and the accumulator is still the grid of 2 by 2.
\<close>

theorem C5_resize_keeps_old_accumulator_counterexample:
  "slopePixelCache (snd (render allIndex twoLines greyMap False None))
       = Some [[[(0, Fin (1 / 100000))], []], [[], [(1, Fin 1)]]]
   \<and> fitsSurface twoLines [[[(0, Fin (1 / 100000))], []], [[], [(1, Fin 1)]]]
   \<and> extent (xScale resized) = 1 \<and> extent (yScale resized) = 1
   \<and> fst (render allIndex resized greyMap False None) = Inr (Fin 1, [255, 255, 255, 255])
   \<and> slopePixelCache (snd (render allIndex resized greyMap False None))
       = Some [[[(0, Fin (1 / 100000))], []], [[], [(1, Fin 1)]]]
   \<and> \<not> fitsSurface (snd (render allIndex resized greyMap False None))
         [[[(0, Fin (1 / 100000))], []], [[], [(1, Fin 1)]]]"
  by (simp add: twoLines_fields resized_fields render_snd twoLines_accumulator fitsSurface_def
      resized_render resized_accumulator numeral_2_eq_2)

section \<open>Subset monotonicity of the weights\<close>

lemma mapE_nth:
  "mapE f xs = Inr ys \<Longrightarrow> length ys = length xs \<and> (\<forall>k < length xs. f (xs ! k) = Inr (ys ! k))"
proof (induction xs arbitrary: ys)
  case Nil
  then show ?case by simp
next
  case (Cons x xs)
  from Cons.prems obtain b bs where b: "f x = Inr b" and bs: "mapE f xs = Inr bs"
    and ys: "ys = b # bs"
    by (auto simp: bindE_Inr_iff)
  from Cons.IH [OF bs] b ys show ?case
    by (auto simp: nth_Cons split: nat.splits)
qed

lemma count_fold:
  "fold (\<lambda>v p. jadd p (if P v then Fin 1 else Fin 0)) cell (Fin a)
     = Fin (a + real (length (filter P cell)))"
  by (induction cell arbitrary: a) simp_all

lemma pixelWeight_count:
  "pixelWeight False ids cell = Fin (real (length (filter (\<lambda>v. fst v \<in> set ids) cell)))"
  using count_fold [of "\<lambda>v. fst v \<in> set ids" cell 0] by (simp add: pixelWeight_def)

lemma length_filter_mono:
  "(\<And>x. P x \<Longrightarrow> Q x) \<Longrightarrow> length (filter P xs) \<le> length (filter Q xs)"
  by (induction xs) auto

lemma tempBuffer_nth:
  assumes "tempBuffer cache width height normalise ids = Inr buf" and "k < width * height"
  shows "length buf = width * height
     \<and> (\<exists>cell. elemAt cache (int (k div height)) = Inr (cache ! (k div height))
              \<and> cell = cache ! (k div height) ! (k mod height)
              \<and> buf ! k = pixelWeight normalise ids cell)"
proof -
  from mapE_nth [OF assms(1) [unfolded tempBuffer_def]] assms(2)
  show ?thesis by (auto simp: bindE_Inr_iff elemAt_Inr_iff)
qed

text \<open>
  C7. Rasterizer subset monotonicity: with \<open>normalize\<close> false and the same accumulator,
  when the identities of the subset \<open>a\<close> are among those of the subset \<open>b\<close> (an absent
  subset is all the lines), the weight of every pixel for \<open>a\<close> is at most its weight for
  \<open>b\<close>.
\<close>

theorem C7_subset_monotone:
  assumes "weights C this False a = Inr wa" and "weights C this False b = Inr wb"
    and "set (subsetOf this a) \<subseteq> set (subsetOf this b)"
    and "k < length wa"
  shows "jle (wa ! k) (wb ! k)"
proof -
  let ?W = "extent (xScale this)" and ?H = "extent (yScale this)"
  from assms(1) have la: "length wa = ?W * ?H"
    using mapE_nth [of _ "[0..<?W * ?H]" wa] by (simp add: weights_def tempBuffer_def)
  with assms(4) have k: "k < ?W * ?H" by simp
  from tempBuffer_nth [OF assms(1) [unfolded weights_def] k]
  have a: "wa ! k = pixelWeight False (subsetOf this a)
             (accumulator C this ! (k div ?H) ! (k mod ?H))" by auto
  from tempBuffer_nth [OF assms(2) [unfolded weights_def] k]
  have b: "wb ! k = pixelWeight False (subsetOf this b)
             (accumulator C this ! (k div ?H) ! (k mod ?H))" by auto
  have "length (filter (\<lambda>v. fst v \<in> set (subsetOf this a)) (accumulator C this ! (k div ?H) ! (k mod ?H)))
      \<le> length (filter (\<lambda>v. fst v \<in> set (subsetOf this b)) (accumulator C this ! (k div ?H) ! (k mod ?H)))"
    using assms(3) by (intro length_filter_mono) auto
  then show ?thesis by (simp add: a b pixelWeight_count)
qed

lemma twoLines_weights_first: "weights allIndex twoLines False (Some [0]) = Inr [Fin 1, Fin 0, Fin 0, Fin 0]"
  by (simp add: weights_def twoLines_accumulator twoLines_fields subsetOf_def tempBuffer_def
      elemAt_def pixelWeight_def upt_small)

lemma twoLines_weights_all: "weights allIndex twoLines False None = Inr [Fin 1, Fin 0, Fin 0, Fin 1]"
  by (simp add: weights_def twoLines_accumulator twoLines_fields subsetOf_def tempBuffer_def
      elemAt_def pixelWeight_def upt_small)

theorem C7_subset_monotone_witness:
  "weights allIndex twoLines False (Some [0]) = Inr [Fin 1, Fin 0, Fin 0, Fin 0]
   \<and> weights allIndex twoLines False None = Inr [Fin 1, Fin 0, Fin 0, Fin 1]
   \<and> set (subsetOf twoLines (Some [0])) \<subseteq> set (subsetOf twoLines None)
   \<and> jle ([Fin 1, Fin 0, Fin 0, Fin 0] ! 3) ([Fin 1, Fin 0, Fin 0, Fin 1] ! 3)"
proof -
  have sub: "set (subsetOf twoLines (Some [0])) \<subseteq> set (subsetOf twoLines None)"
    by (simp add: subsetOf_def twoLines_fields)
  have "jle ([Fin 1, Fin 0, Fin 0, Fin 0] ! 3) ([Fin 1, Fin 0, Fin 0, Fin 1] ! 3)"
    by (rule C7_subset_monotone [OF twoLines_weights_first twoLines_weights_all sub]) simp
  with sub show ?thesis by (simp add: twoLines_weights_first twoLines_weights_all)
qed

end
